theory Spec2Isabelle
  imports Main
begin

section \<open>JavaScript values, strings and errors\<close>

text \<open>
  Strings are lists of 8-bit characters; code units above 0xFF are not represented, and
  letter case is ASCII letter case. A value that may be \<^verbatim>\<open>null\<close> or
  \<^verbatim>\<open>undefined\<close> is an option, \<open>None\<close> standing for both. An awaited promise
  is a sum: \<open>Inl\<close> carries what a rejection throws, \<open>Inr\<close> the value.

  \<^verbatim>\<open>ResolutionError\<close> (src/resolutionError) is not among the sources. An instance is
  represented by the code and the parameter object handed to its constructor.
  Modelled from the spec: a member of the enumeration \<^verbatim>\<open>ResolutionErrorCode\<close> is the
  string of its name, as listed in the error taxonomy of the specification.
\<close>

datatype js_error =
    ResolutionError string "(string \<times> string) list"
  | Error string
  | TypeError string

fun isResolutionError :: "js_error \<Rightarrow> bool" where
  "isResolutionError (ResolutionError code params) = True"
| "isResolutionError (Error message) = False"
| "isResolutionError (TypeError message) = False"

fun errorCode :: "js_error \<Rightarrow> string option" where
  "errorCode (ResolutionError code params) = Some code"
| "errorCode (Error message) = None"
| "errorCode (TypeError message) = None"

text \<open>\<^verbatim>\<open>!v\<close> for a value that is a string, null or undefined.\<close>

definition falsy :: "string option \<Rightarrow> bool" where
  "falsy v = (v = None \<or> v = Some [])"

definition NullAddress :: string where
  "NullAddress = ''0x0000000000000000000000000000000000000000''"

definition toUpperChar :: "char \<Rightarrow> char" where
  "toUpperChar c =
     (case map_of (zip ''abcdefghijklmnopqrstuvwxyz'' ''ABCDEFGHIJKLMNOPQRSTUVWXYZ'') c of
        None \<Rightarrow> c | Some u \<Rightarrow> u)"

definition toLowerChar :: "char \<Rightarrow> char" where
  "toLowerChar c =
     (case map_of (zip ''ABCDEFGHIJKLMNOPQRSTUVWXYZ'' ''abcdefghijklmnopqrstuvwxyz'') c of
        None \<Rightarrow> c | Some l \<Rightarrow> l)"

definition toUpperCase :: "string \<Rightarrow> string" where
  "toUpperCase s = map toUpperChar s"

definition toLowerCase :: "string \<Rightarrow> string" where
  "toLowerCase s = map toLowerChar s"

text \<open>\<^verbatim>\<open>s.indexOf(c)\<close>: the position of the first occurrence, \<open>-1\<close> when there is none.\<close>

fun indexOf :: "string \<Rightarrow> char \<Rightarrow> int" where
  "indexOf [] c = -1"
| "indexOf (x # xs) c =
     (if x = c then 0 else (let i = indexOf xs c in if i < 0 then -1 else i + 1))"

fun startsWith :: "string \<Rightarrow> string \<Rightarrow> bool" where
  "startsWith s [] = True"
| "startsWith [] (p # ps) = False"
| "startsWith (c # cs) (p # ps) = (c = p \<and> startsWith cs ps)"

text \<open>
  \<^verbatim>\<open>message.match(/literal/)\<close> for a pattern without metacharacters: the literal
  occurs somewhere in the message.
\<close>

fun matchLiteral :: "string \<Rightarrow> string \<Rightarrow> bool" where
  "matchLiteral [] lit = (lit = [])"
| "matchLiteral (c # cs) lit = (startsWith (c # cs) lit \<or> matchLiteral cs lit)"

text \<open>
  The dot of a regular expression matches every character but a line terminator.
  \<^verbatim>\<open>/^.{1,}\.(tld)$/.test(domain)\<close>: the domain ends with a dot and the
  alternative, and what precedes is at least one character, none a line terminator.
\<close>

definition lineTerminator :: "char \<Rightarrow> bool" where
  "lineTerminator c = (c = CHR 0x0A \<or> c = CHR 0x0D)"

definition testTld :: "string \<Rightarrow> string \<Rightarrow> bool" where
  "testTld tld domain =
     (let n = length domain - length (CHR ''.'' # tld) in
        length (CHR ''.'' # tld) < length domain
        \<and> drop n domain = CHR ''.'' # tld
        \<and> list_all (\<lambda>c. \<not> lineTerminator c) (take n domain))"

text \<open>
  \<^verbatim>\<open>parseInt(s)\<close>: leading white space, a sign, then hexadecimal digits after
  \<^verbatim>\<open>0x\<close> and decimal digits otherwise; \<open>None\<close> is \<^verbatim>\<open>NaN\<close>. Numbers are
  unbounded integers here.
\<close>

definition whiteSpace :: "char \<Rightarrow> bool" where
  "whiteSpace c = (c \<in> set [CHR 0x20, CHR 0x09, CHR 0x0A, CHR 0x0B, CHR 0x0C, CHR 0x0D, CHR 0xA0])"

definition digitOf :: "char \<Rightarrow> int option" where
  "digitOf c = map_of (zip ''0123456789'' [0, 1, 2, 3, 4, 5, 6, 7, 8, 9]) c"

definition hexDigitOf :: "char \<Rightarrow> int option" where
  "hexDigitOf c =
     map_of (zip ''0123456789abcdefABCDEF''
       [0, 1, 2, 3, 4, 5, 6, 7, 8, 9, 10, 11, 12, 13, 14, 15, 10, 11, 12, 13, 14, 15]) c"

fun digitsValue :: "(char \<Rightarrow> int option) \<Rightarrow> int \<Rightarrow> int option \<Rightarrow> string \<Rightarrow> int option" where
  "digitsValue dig radix acc [] = acc"
| "digitsValue dig radix acc (c # cs) =
     (case dig c of
        None \<Rightarrow> acc
      | Some d \<Rightarrow> digitsValue dig radix (Some ((case acc of None \<Rightarrow> 0 | Some a \<Rightarrow> a) * radix + d)) cs)"

definition parseUnsigned :: "string \<Rightarrow> int option" where
  "parseUnsigned s =
     (if startsWith s ''0x'' \<or> startsWith s ''0X''
      then digitsValue hexDigitOf 16 None (drop 2 s)
      else digitsValue digitOf 10 None s)"

definition parseInt :: "string option \<Rightarrow> int option" where
  "parseInt v =
     (case v of
        None \<Rightarrow> None
      | Some s \<Rightarrow>
          (case dropWhile whiteSpace s of
             [] \<Rightarrow> None
           | c # cs \<Rightarrow>
               if c = CHR ''-'' then map_option uminus (parseUnsigned cs)
               else if c = CHR ''+'' then parseUnsigned cs
               else parseUnsigned (c # cs)))"

section \<open>The unified result (src/types.ts)\<close>

record meta =
  owner :: "string option"
  type :: string
  ttl :: int

record NamicornResolution =
  addresses :: "(string \<times> string option) list"
  meta :: meta

text \<open>\<^verbatim>\<open>obj[key]\<close> on an object of addresses: undefined when the key is absent.\<close>

definition property :: "(string \<times> string option) list \<Rightarrow> string \<Rightarrow> string option" where
  "property obj key = (case map_of obj key of None \<Rightarrow> None | Some v \<Rightarrow> v)"

section \<open>The contract caller of the Ethereum family\<close>

text \<open>
  \<^verbatim>\<open>Contract\<close> (src/utils/contract) is not among the sources. A contract object is
  the url and the address it was constructed with (the interface is a constant of the
  caller); \<^verbatim>\<open>contract.fetchMethod(methodname, params)\<close> is a parameter of the
  backend: it returns the decoded value, or \<open>Inl\<close> the message of the error it throws.
\<close>

record Contract =
  contractUrl :: string
  contractAddress :: "string option"

type_synonym fetchMethod = "Contract \<Rightarrow> string \<Rightarrow> string list \<Rightarrow> string + string option"

section \<open>The CNS backend (src/cns.ts)\<close>

text \<open>
  The state of a \<^verbatim>\<open>Cns\<close> object after construction. \<open>hash\<close> is the function
  imported from the package eth-ens-namehash, \<open>fetch\<close> the contract caller.
\<close>

record Cns =
  network :: string
  url :: string
  registryAddress :: "string option"
  hash :: "string \<Rightarrow> js_error + string"
  fetch :: fetchMethod

text \<open>The constructor builds \<^verbatim>\<open>cnsContract\<close> only for a truthy registry address.\<close>

definition cnsContract :: "Cns \<Rightarrow> Contract option" where
  "cnsContract c =
     (if falsy (registryAddress c) then None
      else Some \<lparr>contractUrl = url c, contractAddress = registryAddress c\<rparr>)"

definition Cns_isSupportedDomain :: "string \<Rightarrow> bool" where
  "Cns_isSupportedDomain domain = (indexOf domain CHR ''.'' > 0 \<and> testTld ''crypto'' domain)"

text \<open>
  Modelled from the spec: \<^verbatim>\<open>ensureSupportedDomain\<close>, inherited from the base class
  in src/namingService, which is not among the sources. The specification says of
  \<^verbatim>\<open>namehash\<close> that the domain must be supported and that it fails with
  \<^verbatim>\<open>UnsupportedDomain\<close> otherwise.
\<close>

definition Cns_ensureSupportedDomain :: "string \<Rightarrow> js_error + unit" where
  "Cns_ensureSupportedDomain domain =
     (if Cns_isSupportedDomain domain then Inr ()
      else Inl (ResolutionError ''UnsupportedDomain'' [(''domain'', domain)]))"

definition Cns_namehash :: "Cns \<Rightarrow> string \<Rightarrow> js_error + string" where
  "Cns_namehash c domain =
     (case Cns_ensureSupportedDomain domain of
        Inl e \<Rightarrow> Inl e
      | Inr u \<Rightarrow> hash c domain)"

text \<open>
  \<^verbatim>\<open>callMethod\<close>: calling a method of an undefined contract throws a TypeError
  inside the try block; its message matches neither pattern and it is thrown again.
\<close>

definition Cns_callMethod :: "Cns \<Rightarrow> Contract option \<Rightarrow> string \<Rightarrow> string list \<Rightarrow> js_error + string option" where
  "Cns_callMethod c contract methodname params =
     (case contract of
        None \<Rightarrow> Inl (TypeError ''Cannot read property 'fetchMethod' of undefined'')
      | Some k \<Rightarrow>
          (case fetch c k methodname params of
             Inr v \<Rightarrow> Inr v
           | Inl message \<Rightarrow>
               if matchLiteral message ''Invalid JSON RPC response''
                  \<or> matchLiteral message ''legacy access request rate exceeded''
               then Inl (ResolutionError ''NamingServiceDown'' [(''method'', ''CNS'')])
               else Inl (Error message)))"

definition Cns_getRecord :: "Cns \<Rightarrow> Contract \<Rightarrow> string \<Rightarrow> string list \<Rightarrow> js_error + string option" where
  "Cns_getRecord c contract methodname params = Cns_callMethod c (Some contract) methodname params"

text \<open>\<^verbatim>\<open>new Contract(this.url, resolverInterface, resolver)\<close>\<close>

definition resolverContract :: "Cns \<Rightarrow> string option \<Rightarrow> Contract" where
  "resolverContract c resolver = \<lparr>contractUrl = url c, contractAddress = resolver\<rparr>"

definition Cns_fetchAddress :: "Cns \<Rightarrow> string option \<Rightarrow> string \<Rightarrow> string \<Rightarrow> js_error + string option" where
  "Cns_fetchAddress c resolver tokenId coinName =
     (let addrKey = ''crypto.'' @ toUpperCase coinName @ ''.address''
      in Cns_getRecord c (resolverContract c resolver) ''get'' [addrKey, tokenId])"

definition Cns_getResolver :: "Cns \<Rightarrow> string \<Rightarrow> js_error + string option" where
  "Cns_getResolver c tokenId = Cns_callMethod c (cnsContract c) ''resolverOf'' [tokenId]"

definition Cns_owner :: "Cns \<Rightarrow> string \<Rightarrow> js_error + string option" where
  "Cns_owner c tokenId = Cns_callMethod c (cnsContract c) ''ownerOf'' [tokenId]"

text \<open>\<^verbatim>\<open>getTtl\<close> receives a contract and calls the registry contract all the same.\<close>

definition Cns_getTtl :: "Cns \<Rightarrow> Contract \<Rightarrow> string \<Rightarrow> string list \<Rightarrow> js_error + string option" where
  "Cns_getTtl c contract methodname params = Cns_callMethod c (cnsContract c) methodname params"

definition Cns_getResolutionMeta ::
  "Cns \<Rightarrow> string \<Rightarrow> js_error + (string \<times> string option \<times> int \<times> string option)" where
  "Cns_getResolutionMeta c domain =
     (case Cns_namehash c domain of
        Inl e \<Rightarrow> Inl e
      | Inr tokenId \<Rightarrow>
     (case Cns_owner c tokenId of
        Inl e \<Rightarrow> Inl e
      | Inr owner' \<Rightarrow>
     (case Cns_getResolver c tokenId of
        Inl e \<Rightarrow> Inl e
      | Inr resolver \<Rightarrow>
          if falsy resolver \<or> resolver = Some NullAddress then
            (if falsy owner' \<or> owner' = Some NullAddress
             then Inl (ResolutionError ''UnregisteredDomain'' [(''domain'', domain)])
             else Inl (ResolutionError ''UnspecifiedResolver'' [(''domain'', domain)]))
          else
            (case Cns_getTtl c (resolverContract c resolver) ''get'' [''ttl'', tokenId] of
               Inl e \<Rightarrow> Inl e
             | Inr ttl' \<Rightarrow>
                 Inr (tokenId, owner', (case parseInt ttl' of None \<Rightarrow> 0 | Some n \<Rightarrow> n), resolver)))))"

text \<open>
  \<^verbatim>\<open>resolve\<close>: the try block holds the support check and the resolution meta; the
  catch clause returns null for every ResolutionError. The address is fetched after it.
\<close>

definition Cns_resolve :: "Cns \<Rightarrow> string \<Rightarrow> js_error + NamicornResolution option" where
  "Cns_resolve c domain =
     (case (case Cns_ensureSupportedDomain domain of
              Inl e \<Rightarrow> Inl e
            | Inr u \<Rightarrow> Cns_getResolutionMeta c domain) of
        Inl err \<Rightarrow> if isResolutionError err then Inr None else Inl err
      | Inr (tokenId, owner', ttl', resolver) \<Rightarrow>
          (case Cns_fetchAddress c resolver tokenId ''ETH'' of
             Inl e \<Rightarrow> Inl e
           | Inr address \<Rightarrow>
               Inr (Some \<lparr>addresses = [(''ETH'', address)],
                          meta = \<lparr>owner = owner', type = ''cns'', ttl = ttl'\<rparr>\<rparr>)))"

definition Cns_address :: "Cns \<Rightarrow> string \<Rightarrow> string \<Rightarrow> js_error + string" where
  "Cns_address c domain currencyTicker =
     (case Cns_getResolutionMeta c domain of
        Inl e \<Rightarrow> Inl e
      | Inr (tokenId, owner', ttl', resolver) \<Rightarrow>
          (case Cns_fetchAddress c resolver tokenId currencyTicker of
             Inl e \<Rightarrow> Inl e
           | Inr addr \<Rightarrow>
               if falsy addr
               then Inl (ResolutionError ''UnspecifiedCurrency''
                          [(''domain'', domain), (''currencyTicker'', currencyTicker)])
               else Inr (the addr)))"

definition Cns_record :: "Cns \<Rightarrow> string \<Rightarrow> string \<Rightarrow> js_error + string" where
  "Cns_record c domain key =
     (case Cns_namehash c domain of
        Inl e \<Rightarrow> Inl e
      | Inr tokenId \<Rightarrow>
     (case Cns_getResolver c tokenId of
        Inl e \<Rightarrow> Inl e
      | Inr resolver \<Rightarrow>
     (case Cns_getRecord c (resolverContract c resolver) ''get'' [key, tokenId] of
        Inl e \<Rightarrow> Inl e
      | Inr fetched \<Rightarrow>
          if falsy fetched \<or> fetched = Some ''0x'' \<or> fetched = Some NullAddress
          then Inl (ResolutionError ''RecordNotFound'' [(''recordName'', key), (''domain'', domain)])
          else Inr (the fetched))))"

section \<open>The base class of the Ethereum family (src/EthereumNamingService.ts)\<close>

text \<open>
  The class is abstract: \<^verbatim>\<open>namehash\<close>, \<^verbatim>\<open>owner\<close> and \<^verbatim>\<open>getResolver\<close> come
  from the subclass, and \<^verbatim>\<open>isNullAddress\<close> is imported from a version of
  src/types that is not among the sources. All four are fields of the state here, beside
  the name of the service and the contract caller.
\<close>

record EthereumNamingService =
  name :: string
  namehashOf :: "string \<Rightarrow> js_error + string"
  ownerOf :: "string \<Rightarrow> js_error + string option"
  getResolverOf :: "string \<Rightarrow> js_error + string option"
  isNullAddress :: "string option \<Rightarrow> bool"
  fetchMethodOf :: fetchMethod

definition Ethereum_callMethod ::
  "EthereumNamingService \<Rightarrow> Contract \<Rightarrow> string \<Rightarrow> string list \<Rightarrow> js_error + string option" where
  "Ethereum_callMethod s contract methodname params =
     (case fetchMethodOf s contract methodname params of
        Inr v \<Rightarrow> Inr v
      | Inl message \<Rightarrow>
          if matchLiteral message ''Invalid JSON RPC response''
             \<or> matchLiteral message ''legacy access request rate exceeded''
          then Inl (ResolutionError ''NamingServiceDown'' [(''method'', name s)])
          else Inl (Error message))"

text \<open>
  \<^verbatim>\<open>throwOwnershipError\<close> awaits the promise it is given, or asks for the owner
  itself, and throws in every case.
\<close>

definition Ethereum_throwOwnershipError ::
  "EthereumNamingService \<Rightarrow> string \<Rightarrow> (js_error + string option) option \<Rightarrow> js_error + unit" where
  "Ethereum_throwOwnershipError s domain ownerPromise =
     (case (case ownerPromise of Some p \<Rightarrow> p | None \<Rightarrow> ownerOf s domain) of
        Inl e \<Rightarrow> Inl e
      | Inr owner' \<Rightarrow>
          if isNullAddress s owner'
          then Inl (ResolutionError ''UnregisteredDomain'' [(''domain'', domain)])
          else Inl (ResolutionError ''UnspecifiedResolver'' [(''domain'', domain)]))"

definition Ethereum_resolver :: "EthereumNamingService \<Rightarrow> string \<Rightarrow> js_error + string option" where
  "Ethereum_resolver s domain =
     (case namehashOf s domain of
        Inl e \<Rightarrow> Inl e
      | Inr nodeHash \<Rightarrow>
          (let ownerPromise = ownerOf s domain in
           case getResolverOf s nodeHash of
             Inl e \<Rightarrow> Inl e
           | Inr resolverAddress \<Rightarrow>
               if falsy resolverAddress \<or> isNullAddress s resolverAddress
               then (case Ethereum_throwOwnershipError s domain (Some ownerPromise) of
                       Inl e \<Rightarrow> Inl e
                     | Inr u \<Rightarrow> Inr resolverAddress)
               else Inr resolverAddress))"

section \<open>The ZNS backend (src/interfaces/NamingService.ts, second part)\<close>

text \<open>
  A value of the contract state: null, a string, or a registry record with its
  \<^verbatim>\<open>arguments\<close>. The response of the provider has a \<^verbatim>\<open>result\<close> that is either
  falsy (\<open>None\<close>) or an object from field names to maps.
\<close>

datatype zil_value = ZNull | ZString string | ZRecord "string list"

fun zilFalsy :: "zil_value option \<Rightarrow> bool" where
  "zilFalsy None = True"
| "zilFalsy (Some ZNull) = True"
| "zilFalsy (Some (ZString s)) = (s = [])"
| "zilFalsy (Some (ZRecord args)) = False"

record zil_response =
  result :: "(string \<rightharpoonup> (string \<rightharpoonup> zil_value)) option"

text \<open>
  The state of a ZNS object: the address of the registry contract object, the
  \<^verbatim>\<open>send\<close> of the provider, which may throw, and the function imported from
  src/zns/namehash, which is not among the sources. What \<^verbatim>\<open>resolve\<close> does once it has
  found a registry record (reading the resolver, the lodash transformations, the
  bech32 conversion of @zilliqa-js/crypto) is the field \<open>resolveFound\<close>.
\<close>

record Zns =
  registry :: string
  send :: "string \<Rightarrow> string \<Rightarrow> string \<Rightarrow> string list \<Rightarrow> js_error + zil_response"
  znsNamehash :: "string \<Rightarrow> js_error + string"
  resolveFound :: "zil_value \<Rightarrow> js_error + NamicornResolution"

text \<open>\<^verbatim>\<open>s.replace(pat, rep)\<close> with a string pattern replaces the first occurrence.\<close>

fun replaceFirst :: "string \<Rightarrow> string \<Rightarrow> string \<Rightarrow> string" where
  "replaceFirst [] pat rep = (if pat = [] then rep else [])"
| "replaceFirst (c # cs) pat rep =
     (if startsWith (c # cs) pat then rep @ drop (length pat) (c # cs)
      else c # replaceFirst cs pat rep)"

text \<open>\<^verbatim>\<open>JSON.stringify\<close> of a string: quotes around it, with the escapes of JSON.\<close>

definition hexDigit :: "nat \<Rightarrow> char" where
  "hexDigit n = ''0123456789abcdef'' ! (n mod 16)"

definition jsonEscape :: "char \<Rightarrow> string" where
  "jsonEscape c =
     (if c = CHR 0x22 then [CHR 0x5C, CHR 0x22]
      else if c = CHR 0x5C then [CHR 0x5C, CHR 0x5C]
      else if c = CHR 0x08 then [CHR 0x5C, CHR ''b'']
      else if c = CHR 0x0C then [CHR 0x5C, CHR ''f'']
      else if c = CHR 0x0A then [CHR 0x5C, CHR ''n'']
      else if c = CHR 0x0D then [CHR 0x5C, CHR ''r'']
      else if c = CHR 0x09 then [CHR 0x5C, CHR ''t'']
      else if (of_char c :: nat) < 32
        then [CHR 0x5C, CHR ''u'', CHR ''0'', CHR ''0'',
              hexDigit (of_char c div 16), hexDigit (of_char c)]
      else [c])"

definition JSON_stringify :: "string \<Rightarrow> string" where
  "JSON_stringify k = [CHR 0x22] @ concat (map jsonEscape k) @ [CHR 0x22]"

definition Zns_getContractField ::
  "Zns \<Rightarrow> string \<Rightarrow> string \<Rightarrow> string list \<Rightarrow> js_error + (string \<rightharpoonup> zil_value) option" where
  "Zns_getContractField z contract field keys =
     (case send z ''GetSmartContractSubState''
             (toLowerCase (replaceFirst contract ''0x'' [])) field (map JSON_stringify keys) of
        Inl e \<Rightarrow> Inl e
      | Inr response \<Rightarrow>
          Inr ((case result response of None \<Rightarrow> Map.empty | Some r \<Rightarrow> r) field))"

text \<open>Indexing an undefined field throws a TypeError.\<close>

definition Zns_getContractMapValue ::
  "Zns \<Rightarrow> string \<Rightarrow> string \<Rightarrow> string \<Rightarrow> js_error + zil_value option" where
  "Zns_getContractMapValue z contract field key =
     (case Zns_getContractField z contract field [key] of
        Inl e \<Rightarrow> Inl e
      | Inr None \<Rightarrow> Inl (TypeError ''Cannot read property of undefined'')
      | Inr (Some m) \<Rightarrow> Inr (m key))"

definition Zns_resolve :: "Zns \<Rightarrow> string \<Rightarrow> js_error + NamicornResolution option" where
  "Zns_resolve z domain =
     (case znsNamehash z domain of
        Inl e \<Rightarrow> Inl e
      | Inr node \<Rightarrow>
     (case Zns_getContractMapValue z (registry z) ''records'' node of
        Inl e \<Rightarrow> Inl e
      | Inr registryRecord \<Rightarrow>
          if zilFalsy registryRecord then Inr None
          else (case resolveFound z (the registryRecord) of
                  Inl e \<Rightarrow> Inl e
                | Inr resolution \<Rightarrow> Inr (Some resolution))))"

definition Zns_isSupportedDomain :: "string \<Rightarrow> bool" where
  "Zns_isSupportedDomain domain = (indexOf domain CHR ''.'' > 0 \<and> testTld ''zil'' domain)"

section \<open>The dispatcher (src/namicorn.ts)\<close>

text \<open>
  The dispatcher uses two methods of a backend, \<^verbatim>\<open>isSupportedDomain\<close> and
  \<^verbatim>\<open>resolve\<close>; a backend is the pair of them. Its slots \<^verbatim>\<open>ens\<close> and
  \<^verbatim>\<open>zns\<close> are optional. The class of the first slot (src/ens) is not among the
  sources; the slot takes any backend, and the backend of the Ethereum family that the
  sources hold is \<open>Cns\<close>. \<open>fetchJson\<close> is the request to the HTTP API followed by
  \<^verbatim>\<open>response.json()\<close>, used when the blockchain is switched off.
\<close>

record NamingMethod =
  isSupportedDomain :: "string \<Rightarrow> bool"
  resolve :: "string \<Rightarrow> js_error + NamicornResolution option"

record Namicorn =
  api :: string
  blockchain :: bool
  ens :: "NamingMethod option"
  zns :: "NamingMethod option"
  fetchJson :: "string \<Rightarrow> js_error + NamicornResolution option"

definition CnsMethod :: "Cns \<Rightarrow> NamingMethod" where
  "CnsMethod c = \<lparr>isSupportedDomain = Cns_isSupportedDomain, resolve = Cns_resolve c\<rparr>"

definition ZnsMethod :: "Zns \<Rightarrow> NamingMethod" where
  "ZnsMethod z = \<lparr>isSupportedDomain = Zns_isSupportedDomain, resolve = Zns_resolve z\<rparr>"

definition UNCLAIMED_DOMAIN_RESPONSE :: NamicornResolution where
  "UNCLAIMED_DOMAIN_RESPONSE = \<lparr>addresses = [], meta = \<lparr>owner = None, type = [], ttl = 0\<rparr>\<rparr>"

definition supports :: "string \<Rightarrow> NamingMethod option \<Rightarrow> bool" where
  "supports domain method = (case method of None \<Rightarrow> False | Some m \<Rightarrow> isSupportedDomain m domain)"

definition getNamingMethod :: "Namicorn \<Rightarrow> string \<Rightarrow> NamingMethod option" where
  "getNamingMethod N domain =
     (case List.find (supports domain) [ens N, zns N] of None \<Rightarrow> None | Some method \<Rightarrow> method)"

definition resolveUsingBlockchain :: "Namicorn \<Rightarrow> string \<Rightarrow> js_error + NamicornResolution" where
  "resolveUsingBlockchain N domain =
     (case getNamingMethod N domain of
        None \<Rightarrow> Inl (ResolutionError ''UnsupportedDomain'' [(''domain'', domain)])
      | Some method \<Rightarrow>
          (case resolve method domain of
             Inl e \<Rightarrow> Inl e
           | Inr res \<Rightarrow> Inr (case res of None \<Rightarrow> UNCLAIMED_DOMAIN_RESPONSE | Some r \<Rightarrow> r)))"

definition Namicorn_resolve :: "Namicorn \<Rightarrow> string \<Rightarrow> js_error + NamicornResolution option" where
  "Namicorn_resolve N domain =
     (if blockchain N
      then (case resolveUsingBlockchain N domain of Inl e \<Rightarrow> Inl e | Inr r \<Rightarrow> Inr (Some r))
      else fetchJson N (api N @ ''/'' @ domain))"

definition Namicorn_addressOrThrow :: "Namicorn \<Rightarrow> string \<Rightarrow> string \<Rightarrow> js_error + string option" where
  "Namicorn_addressOrThrow N domain currencyTicker =
     (case Namicorn_resolve N domain of
        Inl err \<Rightarrow> if isResolutionError err then Inr None else Inl err
      | Inr None \<Rightarrow> Inr None
      | Inr (Some data) \<Rightarrow>
          if falsy (owner (meta data))
          then Inl (ResolutionError ''UnregisteredDomain'' [(''domain'', domain)])
          else if falsy (property (addresses data) (toUpperCase currencyTicker))
          then Inl (ResolutionError ''UnregisteredCurrency''
                     [(''domain'', domain), (''currencyTicker'', currencyTicker)])
          else Inr (property (addresses data) (toUpperCase currencyTicker)))"

definition Namicorn_address :: "Namicorn \<Rightarrow> string \<Rightarrow> string \<Rightarrow> js_error + string option" where
  "Namicorn_address N domain currencyTicker =
     (case Namicorn_addressOrThrow N domain currencyTicker of
        Inl error \<Rightarrow> if isResolutionError error then Inr None else Inl error
      | Inr a \<Rightarrow> Inr a)"

text \<open>
  \<^verbatim>\<open>(zns && zns.isSupportedDomain(d)) || (ens && ens.isSupportedDomain(d))\<close>: the
  value is undefined (\<open>None\<close>) when the second slot is consulted and empty.
\<close>

definition Namicorn_isSupportedDomain :: "Namicorn \<Rightarrow> string \<Rightarrow> bool option" where
  "Namicorn_isSupportedDomain N domain =
     (let z = map_option (\<lambda>m. isSupportedDomain m domain) (zns N) in
      if z = Some True then z else map_option (\<lambda>m. isSupportedDomain m domain) (ens N))"

text \<open>The backends registered with a dispatcher, and those whose pattern matches.\<close>

definition registered :: "Namicorn \<Rightarrow> NamingMethod list" where
  "registered N = List.map_filter (\<lambda>m. m) [ens N, zns N]"

definition matching :: "Namicorn \<Rightarrow> string \<Rightarrow> NamingMethod list" where
  "matching N domain = filter (\<lambda>m. isSupportedDomain m domain) (registered N)"

section \<open>The namehash of the specification\<close>

text \<open>
  Modelled from the spec: the function \<^verbatim>\<open>hash\<close> of the package eth-ens-namehash,
  which is outside the sources. The specification describes it as lowercasing the
  domain and hashing its labels from the rightmost label inward, seeded with a zero
  hash. The hash function itself (\<open>keccak\<close>, from strings to hexadecimal strings) is a
  parameter.
\<close>

fun splitOn :: "char \<Rightarrow> string \<Rightarrow> string list" where
  "splitOn sep [] = [[]]"
| "splitOn sep (c # cs) =
     (if c = sep then [] # splitOn sep cs
      else (case splitOn sep cs of l # ls \<Rightarrow> (c # l) # ls | [] \<Rightarrow> [[c]]))"

definition zeroHash :: string where
  "zeroHash = replicate 64 CHR ''0''"

definition namehashSpec :: "(string \<Rightarrow> string) \<Rightarrow> string \<Rightarrow> js_error + string" where
  "namehashSpec keccak domain =
     Inr (''0x'' @ foldr (\<lambda>label node. keccak (node @ keccak label))
                     (if domain = [] then [] else splitOn CHR ''.'' (toLowerCase domain))
                     zeroHash)"

section \<open>Outcomes\<close>

text \<open>A promise rejects with a ResolutionError of the given code.\<close>

definition failsWith :: "js_error + 'a \<Rightarrow> string \<Rightarrow> bool" where
  "failsWith r code = (case r of Inl e \<Rightarrow> errorCode e = Some code | Inr v \<Rightarrow> False)"

text \<open>A promise rejects with some ResolutionError.\<close>

definition failsInTaxonomy :: "js_error + 'a \<Rightarrow> bool" where
  "failsInTaxonomy r = (case r of Inl e \<Rightarrow> isResolutionError e | Inr v \<Rightarrow> False)"

section \<open>Example configurations\<close>

text \<open>A stand-in for the hash function of a backend in the examples.\<close>

definition exampleHash :: "string \<Rightarrow> js_error + string" where
  "exampleHash domain = Inr (''0x'' @ toLowerCase domain)"

text \<open>
  A registry in which every token has an owner and the null address as resolver.
\<close>

definition ownedChain :: fetchMethod where
  "ownedChain contract methodname params =
     (if methodname = ''ownerOf'' then Inr (Some ''0x8aaD44321A86b170879d7A244c1e8d360c99DdA8'')
      else if methodname = ''resolverOf'' then Inr (Some NullAddress)
      else Inr None)"

definition cnsOwned :: Cns where
  "cnsOwned = \<lparr>network = ''mainnet'', url = ''https://mainnet.infura.io'',
               registryAddress = Some ''0x608624cA9dacbf78B19232e15f67107Da0AeE715'',
               hash = exampleHash, fetch = ownedChain\<rparr>"

text \<open>
  A registry and resolver holding the record set of the specification's example:
  \<^verbatim>\<open>crypto.ETH.address\<close> and \<^verbatim>\<open>ttl\<close>, every other key empty.
\<close>

definition knownChain :: fetchMethod where
  "knownChain contract methodname params =
     (if methodname = ''ownerOf'' then Inr (Some ''0x8aaD44321A86b170879d7A244c1e8d360c99DdA8'')
      else if methodname = ''resolverOf'' then Inr (Some ''0xb66DcE2DA6afAAa98F2013446dBCB0f4B0ab2842'')
      else if methodname = ''get'' \<and> take 1 params = [''ttl''] then Inr (Some ''120'')
      else if methodname = ''get'' \<and> take 1 params = [''crypto.ETH.address'']
        then Inr (Some ''0xabc'')
      else Inr (Some []))"

definition cnsKnown :: Cns where
  "cnsKnown = \<lparr>network = ''mainnet'', url = ''https://mainnet.infura.io'',
              registryAddress = Some ''0x608624cA9dacbf78B19232e15f67107Da0AeE715'',
              hash = exampleHash, fetch = knownChain\<rparr>"

text \<open>A transport that fails with the malformed-response message on every call.\<close>

definition downChain :: fetchMethod where
  "downChain contract methodname params = Inl ''Invalid JSON RPC response: undefined''"

definition cnsDown :: Cns where
  "cnsDown = \<lparr>network = ''mainnet'', url = ''https://mainnet.infura.io'',
             registryAddress = Some ''0x608624cA9dacbf78B19232e15f67107Da0AeE715'',
             hash = exampleHash, fetch = downChain\<rparr>"

definition ethereumOwned :: EthereumNamingService where
  "ethereumOwned = \<lparr>name = ''ENS'', namehashOf = exampleHash,
      ownerOf = (\<lambda>domain. Inr (Some ''0x8aaD44321A86b170879d7A244c1e8d360c99DdA8'')),
      getResolverOf = (\<lambda>nodeHash. Inr (Some NullAddress)),
      isNullAddress = (\<lambda>key. falsy key \<or> key = Some ''0x'' \<or> key = Some NullAddress),
      fetchMethodOf = downChain\<rparr>"

text \<open>What is done with a registry record that was found, in the examples.\<close>

definition exampleFound :: "zil_value \<Rightarrow> js_error + NamicornResolution" where
  "exampleFound registryRecord =
     Inr \<lparr>addresses = [],
          meta = \<lparr>owner = (case registryRecord of ZRecord (a # as) \<Rightarrow> Some a | _ \<Rightarrow> None),
                  type = ''zns'', ttl = 0\<rparr>\<rparr>"

text \<open>A provider that answers every request with a response without result.\<close>

definition znsNoResult :: Zns where
  "znsNoResult = \<lparr>registry = ''0x9611c53BE6d1b32058b2747bdeCECed7e1216793'',
      send = (\<lambda>method address field keys. Inr \<lparr>result = None\<rparr>),
      znsNamehash = exampleHash, resolveFound = exampleFound\<rparr>"

text \<open>A provider whose registry holds the field \<^verbatim>\<open>records\<close> with no entry.\<close>

definition znsEmpty :: Zns where
  "znsEmpty = \<lparr>registry = ''0x9611c53BE6d1b32058b2747bdeCECed7e1216793'',
      send = (\<lambda>method address field keys.
                Inr \<lparr>result = Some (\<lambda>f. if f = ''records'' then Some Map.empty else None)\<rparr>),
      znsNamehash = exampleHash, resolveFound = exampleFound\<rparr>"

text \<open>A provider whose every request throws the malformed-response error.\<close>

definition znsDown :: Zns where
  "znsDown = \<lparr>registry = ''0x9611c53BE6d1b32058b2747bdeCECed7e1216793'',
      send = (\<lambda>method address field keys. Inl (Error ''Invalid JSON RPC response: undefined'')),
      znsNamehash = exampleHash, resolveFound = exampleFound\<rparr>"

text \<open>Dispatchers over these backends, resolving on the blockchain.\<close>

definition dispatcher :: "NamingMethod option \<Rightarrow> NamingMethod option \<Rightarrow> Namicorn" where
  "dispatcher e z = \<lparr>api = ''https://unstoppabledomains.com/api/v1'', blockchain = True,
      ens = e, zns = z, fetchJson = (\<lambda>url. Inr None)\<rparr>"

section \<open>Properties\<close>

lemmas string_defs = falsy_def NullAddress_def testTld_def lineTerminator_def
  toUpperCase_def toUpperChar_def toLowerCase_def toLowerChar_def

lemmas cns_defs = Cns_getResolutionMeta_def Cns_namehash_def Cns_ensureSupportedDomain_def
  Cns_isSupportedDomain_def Cns_owner_def Cns_getResolver_def Cns_getTtl_def Cns_getRecord_def
  Cns_fetchAddress_def Cns_callMethod_def cnsContract_def resolverContract_def

lemmas example_defs = cnsOwned_def cnsKnown_def cnsDown_def ownedChain_def knownChain_def
  downChain_def exampleHash_def ethereumOwned_def znsNoResult_def znsEmpty_def znsDown_def
  exampleFound_def dispatcher_def

lemma Cns_namehash_supported:
  "Cns_isSupportedDomain domain \<Longrightarrow> Cns_namehash c domain = hash c domain"
  by (simp add: Cns_namehash_def Cns_ensureSupportedDomain_def)

text \<open>
  Claim C4. For a supported domain whose resolver read gives nothing or the null address,
  the resolution meta of the CNS backend fails with UnregisteredDomain when the owner read
  gives nothing or the null address too, and with UnspecifiedResolver otherwise; with an
  owner set it never fails with UnregisteredDomain. The same holds of
  \<^verbatim>\<open>resolver\<close> in the base class of the Ethereum family, where absence is decided
  by \<^verbatim>\<open>isNullAddress\<close>. The reads themselves are taken to succeed.
\<close>

theorem resolver_missing:
  "(Cns_isSupportedDomain domain \<and> hash c domain = Inr tokenId
      \<and> Cns_owner c tokenId = Inr owner' \<and> Cns_getResolver c tokenId = Inr resolver
      \<and> (falsy resolver \<or> resolver = Some NullAddress)
    \<longrightarrow> Cns_getResolutionMeta c domain =
          Inl (ResolutionError
                (if falsy owner' \<or> owner' = Some NullAddress
                 then ''UnregisteredDomain'' else ''UnspecifiedResolver'')
                [(''domain'', domain)])
        \<and> (\<not> falsy owner' \<and> owner' \<noteq> Some NullAddress
            \<longrightarrow> \<not> failsWith (Cns_getResolutionMeta c domain) ''UnregisteredDomain''))
   \<and> (namehashOf s domain = Inr nodeHash \<and> ownerOf s domain = Inr owner2
      \<and> getResolverOf s nodeHash = Inr resolver2
      \<and> (falsy resolver2 \<or> isNullAddress s resolver2)
    \<longrightarrow> Ethereum_resolver s domain =
          Inl (ResolutionError
                (if isNullAddress s owner2
                 then ''UnregisteredDomain'' else ''UnspecifiedResolver'')
                [(''domain'', domain)])
        \<and> (\<not> isNullAddress s owner2
            \<longrightarrow> \<not> failsWith (Ethereum_resolver s domain) ''UnregisteredDomain''))"
proof (intro conjI impI)
  assume a: "Cns_isSupportedDomain domain \<and> hash c domain = Inr tokenId
      \<and> Cns_owner c tokenId = Inr owner' \<and> Cns_getResolver c tokenId = Inr resolver
      \<and> (falsy resolver \<or> resolver = Some NullAddress)"
  then have n: "Cns_namehash c domain = Inr tokenId"
    by (simp add: Cns_namehash_supported)
  from a n show r: "Cns_getResolutionMeta c domain =
          Inl (ResolutionError
                (if falsy owner' \<or> owner' = Some NullAddress
                 then ''UnregisteredDomain'' else ''UnspecifiedResolver'')
                [(''domain'', domain)])"
    by (auto simp add: Cns_getResolutionMeta_def)
  assume "\<not> falsy owner' \<and> owner' \<noteq> Some NullAddress"
  with r show "\<not> failsWith (Cns_getResolutionMeta c domain) ''UnregisteredDomain''"
    by (simp add: failsWith_def)
next
  assume a: "namehashOf s domain = Inr nodeHash \<and> ownerOf s domain = Inr owner2
      \<and> getResolverOf s nodeHash = Inr resolver2
      \<and> (falsy resolver2 \<or> isNullAddress s resolver2)"
  then show r: "Ethereum_resolver s domain =
          Inl (ResolutionError
                (if isNullAddress s owner2
                 then ''UnregisteredDomain'' else ''UnspecifiedResolver'')
                [(''domain'', domain)])"
    by (auto simp add: Ethereum_resolver_def Ethereum_throwOwnershipError_def)
  assume "\<not> isNullAddress s owner2"
  with r show "\<not> failsWith (Ethereum_resolver s domain) ''UnregisteredDomain''"
    by (simp add: failsWith_def)
qed

theorem resolver_missing_witness:
  "Cns_getResolutionMeta cnsOwned ''owned.crypto'' =
     Inl (ResolutionError ''UnspecifiedResolver'' [(''domain'', ''owned.crypto'')])
   \<and> \<not> failsWith (Cns_getResolutionMeta cnsOwned ''owned.crypto'') ''UnregisteredDomain''
   \<and> Ethereum_resolver ethereumOwned ''owned.eth'' =
     Inl (ResolutionError ''UnspecifiedResolver'' [(''domain'', ''owned.eth'')])
   \<and> \<not> failsWith (Ethereum_resolver ethereumOwned ''owned.eth'') ''UnregisteredDomain''"
  using resolver_missing [where domain = "''owned.crypto''" and c = cnsOwned
      and tokenId = "''0xowned.crypto''"
      and owner' = "Some ''0x8aaD44321A86b170879d7A244c1e8d360c99DdA8''"
      and resolver = "Some NullAddress"]
    resolver_missing [where domain = "''owned.eth''" and s = ethereumOwned
      and nodeHash = "''0xowned.eth''"
      and ?owner2.0 = "Some ''0x8aaD44321A86b170879d7A244c1e8d360c99DdA8''"
      and ?resolver2.0 = "Some NullAddress"]
  by (simp add: cns_defs string_defs example_defs failsWith_def)

text \<open>
  Claim C5, amended. In the CNS backend and in the base class of the Ethereum family,
  every contract call goes through \<^verbatim>\<open>callMethod\<close>, which turns a transport failure
  whose message contains \<^verbatim>\<open>Invalid JSON RPC response\<close> or
  \<^verbatim>\<open>legacy access request rate exceeded\<close> into NamingServiceDown. The ZNS backend
  translates nothing: what the provider throws leaves \<^verbatim>\<open>getContractField\<close> as it is.
\<close>

theorem transport_failure_down:
  "(fetch c contract methodname params = Inl message
      \<and> (matchLiteral message ''Invalid JSON RPC response''
         \<or> matchLiteral message ''legacy access request rate exceeded'')
    \<longrightarrow> Cns_callMethod c (Some contract) methodname params =
          Inl (ResolutionError ''NamingServiceDown'' [(''method'', ''CNS'')]))
   \<and> (fetchMethodOf s contract methodname params = Inl message
      \<and> (matchLiteral message ''Invalid JSON RPC response''
         \<or> matchLiteral message ''legacy access request rate exceeded'')
    \<longrightarrow> Ethereum_callMethod s contract methodname params =
          Inl (ResolutionError ''NamingServiceDown'' [(''method'', name s)]))
   \<and> (send z ''GetSmartContractSubState'' (toLowerCase (replaceFirst address ''0x'' []))
           field (map JSON_stringify keys) = Inl e
    \<longrightarrow> Zns_getContractField z address field keys = Inl e)"
  by (simp add: Cns_callMethod_def Ethereum_callMethod_def Zns_getContractField_def)

theorem transport_failure_down_witness:
  "Cns_callMethod cnsDown (cnsContract cnsDown) ''ownerOf'' [''0xa.crypto''] =
     Inl (ResolutionError ''NamingServiceDown'' [(''method'', ''CNS'')])
   \<and> Ethereum_callMethod ethereumOwned (resolverContract cnsDown None) ''resolver'' [''0xa.eth''] =
     Inl (ResolutionError ''NamingServiceDown'' [(''method'', ''ENS'')])
   \<and> Zns_getContractField znsDown (registry znsDown) ''records'' [] =
     Inl (Error ''Invalid JSON RPC response: undefined'')"
  using transport_failure_down [where c = cnsDown and contract = "the (cnsContract cnsDown)"
      and methodname = "''ownerOf''" and params = "[''0xa.crypto'']"
      and message = "''Invalid JSON RPC response: undefined''"]
    transport_failure_down [where s = ethereumOwned and contract = "resolverContract cnsDown None"
      and methodname = "''resolver''" and params = "[''0xa.eth'']"
      and message = "''Invalid JSON RPC response: undefined''"
      and z = znsDown and address = "registry znsDown" and field = "''records''" and keys = "[]"
      and e = "Error ''Invalid JSON RPC response: undefined''"]
  by (simp add: cnsContract_def string_defs example_defs)

text \<open>
  The claim as stated fails on the ZNS backend: a provider failure with the
  malformed-response message is not NamingServiceDown.
\<close>

theorem zns_transport_failure_counterexample:
  "matchLiteral ''Invalid JSON RPC response: undefined'' ''Invalid JSON RPC response''
   \<and> send znsDown ''GetSmartContractSubState'' ''9611c53be6d1b32058b2747bdececed7e1216793''
        ''records'' [] = Inl (Error ''Invalid JSON RPC response: undefined'')
   \<and> Zns_getContractField znsDown ''0x9611c53BE6d1b32058b2747bdeCECed7e1216793'' ''records'' [] =
       Inl (Error ''Invalid JSON RPC response: undefined'')
   \<and> \<not> failsWith (Zns_getContractField znsDown ''0x9611c53BE6d1b32058b2747bdeCECed7e1216793''
         ''records'' []) ''NamingServiceDown''"
  by (simp add: Zns_getContractField_def znsDown_def failsWith_def)

text \<open>
  Claim C7. Once the resolver and the record have been read, \<^verbatim>\<open>record\<close> fails with
  RecordNotFound exactly when the value read is empty (or absent), the string
  \<^verbatim>\<open>0x\<close> or the null address, and returns the value otherwise. An empty read is
  thus a value of the call, not a failure of the transport.
\<close>

theorem record_not_found:
  "Cns_isSupportedDomain domain \<and> hash c domain = Inr tokenId
     \<and> Cns_getResolver c tokenId = Inr resolver
     \<and> Cns_getRecord c (resolverContract c resolver) ''get'' [key, tokenId] = Inr fetched
   \<longrightarrow> Cns_record c domain key =
         (if falsy fetched \<or> fetched = Some ''0x'' \<or> fetched = Some NullAddress
          then Inl (ResolutionError ''RecordNotFound'' [(''recordName'', key), (''domain'', domain)])
          else Inr (the fetched))
       \<and> (failsWith (Cns_record c domain key) ''RecordNotFound''
            \<longleftrightarrow> falsy fetched \<or> fetched = Some ''0x'' \<or> fetched = Some NullAddress)"
  by (simp add: Cns_record_def Cns_namehash_supported failsWith_def)

theorem record_not_found_witness:
  "Cns_record cnsKnown ''known.crypto'' ''whois.email.value'' =
     Inl (ResolutionError ''RecordNotFound''
           [(''recordName'', ''whois.email.value''), (''domain'', ''known.crypto'')])
   \<and> Cns_record cnsKnown ''known.crypto'' ''crypto.ETH.address'' = Inr ''0xabc''"
  using record_not_found [where domain = "''known.crypto''" and c = cnsKnown
      and tokenId = "''0xknown.crypto''"
      and resolver = "Some ''0xb66DcE2DA6afAAa98F2013446dBCB0f4B0ab2842''"
      and key = "''whois.email.value''" and fetched = "Some []"]
    record_not_found [where domain = "''known.crypto''" and c = cnsKnown
      and tokenId = "''0xknown.crypto''"
      and resolver = "Some ''0xb66DcE2DA6afAAa98F2013446dBCB0f4B0ab2842''"
      and key = "''crypto.ETH.address''" and fetched = "Some ''0xabc''"]
  by (simp add: cns_defs string_defs example_defs)

lemma resolveUsingBlockchain_method:
  "getNamingMethod N domain = Some method \<Longrightarrow>
   resolveUsingBlockchain N domain =
     (case resolve method domain of
        Inl e \<Rightarrow> Inl e
      | Inr res \<Rightarrow> Inr (case res of None \<Rightarrow> UNCLAIMED_DOMAIN_RESPONSE | Some r \<Rightarrow> r))"
  by (simp add: resolveUsingBlockchain_def)

lemma Cns_resolve_meta_fails:
  "Cns_isSupportedDomain domain \<Longrightarrow> Cns_getResolutionMeta c domain = Inl e \<Longrightarrow>
   Cns_resolve c domain = (if isResolutionError e then Inr None else Inl e)"
  by (simp add: Cns_resolve_def Cns_ensureSupportedDomain_def)

lemma Cns_resolve_fetch_fails:
  "Cns_isSupportedDomain domain \<Longrightarrow>
   Cns_getResolutionMeta c domain = Inr (tokenId, owner', ttl', resolver) \<Longrightarrow>
   Cns_fetchAddress c resolver tokenId ''ETH'' = Inl e \<Longrightarrow>
   Cns_resolve c domain = Inl e"
  by (simp add: Cns_resolve_def Cns_ensureSupportedDomain_def)

lemma Zns_resolve_null:
  "Zns_resolve z domain = Inr None \<Longrightarrow>
   \<exists>node registryRecord. znsNamehash z domain = Inr node
     \<and> Zns_getContractMapValue z (registry z) ''records'' node = Inr registryRecord
     \<and> zilFalsy registryRecord"
  by (auto simp add: Zns_resolve_def split: sum.splits if_splits)

text \<open>
  Claim C1, amended. The dispatcher turns the null result of the selected backend into
  the unclaimed response and lets every error of the backend's \<^verbatim>\<open>resolve\<close> pass
  unchanged. The ZNS backend returns null only for a registry record that is absent. The
  CNS backend returns null for every ResolutionError of its resolution meta, whatever
  the code; other errors of the meta, and every error of the address read that
  follows, leave it unchanged.
\<close>

theorem resolve_unclaimed_conversion:
  "(getNamingMethod N domain = Some backend \<and> resolve backend domain = Inl e
      \<longrightarrow> resolveUsingBlockchain N domain = Inl e)
   \<and> (getNamingMethod N domain = Some backend \<and> resolve backend domain = Inr None
      \<longrightarrow> resolveUsingBlockchain N domain = Inr UNCLAIMED_DOMAIN_RESPONSE)
   \<and> (getNamingMethod N domain = Some backend \<and> resolve backend domain = Inr (Some r)
      \<longrightarrow> resolveUsingBlockchain N domain = Inr r)
   \<and> (Cns_isSupportedDomain domain \<and> Cns_getResolutionMeta c domain = Inl e
      \<longrightarrow> Cns_resolve c domain = (if isResolutionError e then Inr None else Inl e))
   \<and> (Cns_isSupportedDomain domain
        \<and> Cns_getResolutionMeta c domain = Inr (tokenId, owner', ttl', resolver)
        \<and> Cns_fetchAddress c resolver tokenId ''ETH'' = Inl e
      \<longrightarrow> Cns_resolve c domain = Inl e)
   \<and> (Zns_resolve z domain = Inr None
      \<longrightarrow> (\<exists>node registryRecord. znsNamehash z domain = Inr node
            \<and> Zns_getContractMapValue z (registry z) ''records'' node = Inr registryRecord
            \<and> zilFalsy registryRecord))"
proof (intro conjI impI)
  assume "Zns_resolve z domain = Inr None"
  then show "\<exists>node registryRecord. znsNamehash z domain = Inr node
            \<and> Zns_getContractMapValue z (registry z) ''records'' node = Inr registryRecord
            \<and> zilFalsy registryRecord"
    by (rule Zns_resolve_null)
qed (simp_all add: resolveUsingBlockchain_method Cns_resolve_meta_fails Cns_resolve_fetch_fails)

theorem resolve_unclaimed_conversion_witness:
  "Namicorn_resolve (dispatcher (Some (CnsMethod cnsOwned)) (Some (ZnsMethod znsDown)))
       ''owned.zil'' = Inl (Error ''Invalid JSON RPC response: undefined'')
   \<and> Namicorn_resolve (dispatcher (Some (CnsMethod cnsOwned)) (Some (ZnsMethod znsEmpty)))
       ''owned.zil'' = Inr (Some UNCLAIMED_DOMAIN_RESPONSE)
   \<and> Cns_resolve cnsDown ''owned.crypto'' = Inr None"
  using resolve_unclaimed_conversion [where
      N = "dispatcher (Some (CnsMethod cnsOwned)) (Some (ZnsMethod znsDown))"
      and domain = "''owned.zil''" and backend = "ZnsMethod znsDown"
      and e = "Error ''Invalid JSON RPC response: undefined''"]
    resolve_unclaimed_conversion [where
      N = "dispatcher (Some (CnsMethod cnsOwned)) (Some (ZnsMethod znsEmpty))"
      and domain = "''owned.zil''" and backend = "ZnsMethod znsEmpty"]
    resolve_unclaimed_conversion [where domain = "''owned.crypto''" and c = cnsDown
      and e = "ResolutionError ''NamingServiceDown'' [(''method'', ''CNS'')]"]
  by (simp add: Namicorn_resolve_def getNamingMethod_def supports_def
      CnsMethod_def ZnsMethod_def Zns_resolve_def Zns_isSupportedDomain_def
      Zns_getContractMapValue_def Zns_getContractField_def cns_defs string_defs example_defs)

text \<open>
  The claim as stated fails with the CNS backend: an UnspecifiedResolver and a
  NamingServiceDown raised by the resolution meta both end as the unclaimed response.
\<close>

theorem unspecified_resolver_unclaimed_counterexample:
  "Cns_getResolutionMeta cnsOwned ''owned.crypto'' =
     Inl (ResolutionError ''UnspecifiedResolver'' [(''domain'', ''owned.crypto'')])
   \<and> Cns_resolve cnsOwned ''owned.crypto'' = Inr None
   \<and> Namicorn_resolve (dispatcher (Some (CnsMethod cnsOwned)) (Some (ZnsMethod znsEmpty)))
       ''owned.crypto'' = Inr (Some UNCLAIMED_DOMAIN_RESPONSE)
   \<and> Cns_getResolutionMeta cnsDown ''owned.crypto'' =
     Inl (ResolutionError ''NamingServiceDown'' [(''method'', ''CNS'')])
   \<and> Namicorn_resolve (dispatcher (Some (CnsMethod cnsDown)) (Some (ZnsMethod znsEmpty)))
       ''owned.crypto'' = Inr (Some UNCLAIMED_DOMAIN_RESPONSE)"
  by (simp add: Namicorn_resolve_def resolveUsingBlockchain_def getNamingMethod_def supports_def
      CnsMethod_def ZnsMethod_def Cns_resolve_def cns_defs string_defs example_defs)

text \<open>
  Claim C2. A supported ZNS domain for which the provider answers without a result has
  no registry record, and resolving it through the dispatcher throws a TypeError
  instead of returning the unclaimed response.
\<close>

theorem unregistered_zil_raises:
  "Zns_isSupportedDomain ''thisisnotregistered12345.zil''
   \<and> Zns_getContractField znsNoResult (registry znsNoResult) ''records''
        [''0xthisisnotregistered12345.zil''] = Inr None
   \<and> Namicorn_resolve (dispatcher None (Some (ZnsMethod znsNoResult)))
       ''thisisnotregistered12345.zil'' = Inl (TypeError ''Cannot read property of undefined'')"
  by (simp add: Namicorn_resolve_def resolveUsingBlockchain_def getNamingMethod_def supports_def
      ZnsMethod_def Zns_resolve_def Zns_isSupportedDomain_def
      Zns_getContractMapValue_def Zns_getContractField_def string_defs example_defs)

text \<open>
  When the answer holds the field \<^verbatim>\<open>records\<close> and the field has no entry for the
  domain, the dispatcher returns the unclaimed response.
\<close>

lemma absent_record_unclaimed:
  "getNamingMethod N domain = Some (ZnsMethod z) \<Longrightarrow> blockchain N \<Longrightarrow>
   znsNamehash z domain = Inr node \<Longrightarrow>
   Zns_getContractField z (registry z) ''records'' [node] = Inr (Some records) \<Longrightarrow>
   records node = None \<Longrightarrow>
   Namicorn_resolve N domain = Inr (Some UNCLAIMED_DOMAIN_RESPONSE)"
  by (simp add: Namicorn_resolve_def resolveUsingBlockchain_def ZnsMethod_def Zns_resolve_def
      Zns_getContractMapValue_def)

text \<open>
  Claim C10. When \<^verbatim>\<open>resolve\<close> throws a ResolutionError, \<^verbatim>\<open>addressOrThrow\<close>
  returns null; any other error of \<^verbatim>\<open>resolve\<close> is thrown again; and an error of
  \<^verbatim>\<open>resolve\<close> that leaves \<^verbatim>\<open>addressOrThrow\<close> is that same error and no
  ResolutionError.
\<close>

theorem addressOrThrow_catches:
  "(Namicorn_resolve N domain = Inl e \<and> isResolutionError e
      \<longrightarrow> Namicorn_addressOrThrow N domain currencyTicker = Inr None)
   \<and> (Namicorn_resolve N domain = Inl e \<and> \<not> isResolutionError e
      \<longrightarrow> Namicorn_addressOrThrow N domain currencyTicker = Inl e)
   \<and> (Namicorn_resolve N domain = Inl e
        \<and> Namicorn_addressOrThrow N domain currencyTicker = Inl e'
      \<longrightarrow> e' = e \<and> \<not> isResolutionError e)"
  by (auto simp add: Namicorn_addressOrThrow_def split: if_splits)

theorem addressOrThrow_catches_witness:
  "Namicorn_addressOrThrow (dispatcher (Some (CnsMethod cnsOwned)) (Some (ZnsMethod znsDown)))
       ''owned.eth'' ''ETH'' = Inr None
   \<and> Namicorn_addressOrThrow (dispatcher (Some (CnsMethod cnsOwned)) (Some (ZnsMethod znsDown)))
       ''owned.zil'' ''ETH'' = Inl (Error ''Invalid JSON RPC response: undefined'')"
  using addressOrThrow_catches [where
      N = "dispatcher (Some (CnsMethod cnsOwned)) (Some (ZnsMethod znsDown))"
      and domain = "''owned.eth''"
      and e = "ResolutionError ''UnsupportedDomain'' [(''domain'', ''owned.eth'')]"
      and currencyTicker = "''ETH''"]
    addressOrThrow_catches [where
      N = "dispatcher (Some (CnsMethod cnsOwned)) (Some (ZnsMethod znsDown))"
      and domain = "''owned.zil''"
      and e = "Error ''Invalid JSON RPC response: undefined''"
      and currencyTicker = "''ETH''"]
  by (simp add: Namicorn_resolve_def resolveUsingBlockchain_def getNamingMethod_def supports_def
      CnsMethod_def ZnsMethod_def Zns_resolve_def Zns_isSupportedDomain_def
      Zns_getContractMapValue_def Zns_getContractField_def cns_defs string_defs example_defs)

lemmas dispatch_defs = Namicorn_resolve_def resolveUsingBlockchain_def getNamingMethod_def
  supports_def CnsMethod_def ZnsMethod_def Cns_resolve_def Zns_resolve_def
  Zns_isSupportedDomain_def Zns_getContractMapValue_def Zns_getContractField_def

lemma resolve_blockchain_not_null:
  "blockchain N \<Longrightarrow> Namicorn_resolve N domain \<noteq> Inr None"
  by (simp add: Namicorn_resolve_def split: sum.splits)

lemma addressOrThrow_null:
  "blockchain N \<Longrightarrow>
   (Namicorn_addressOrThrow N domain currencyTicker = Inr None)
     = failsInTaxonomy (Namicorn_resolve N domain)"
  using resolve_blockchain_not_null [of N domain]
  by (auto simp add: Namicorn_addressOrThrow_def failsInTaxonomy_def falsy_def
      split: sum.splits option.splits)

text \<open>
  Claim C3. With the blockchain switched on, \<^verbatim>\<open>address\<close> returns null exactly when
  the resolution underneath fails with a ResolutionError, be it thrown by
  \<^verbatim>\<open>resolve\<close> or by the owner and ticker checks of \<^verbatim>\<open>addressOrThrow\<close>; any
  other error is thrown again. For a domain that resolves to the unclaimed response, such
  as \<^verbatim>\<open>unclaimed.zil\<close>, \<^verbatim>\<open>address\<close> returns null and
  \<^verbatim>\<open>addressOrThrow\<close> throws UnregisteredDomain.
\<close>

theorem address_null:
  "(blockchain N \<longrightarrow>
      (Namicorn_address N domain currencyTicker = Inr None)
        = (failsInTaxonomy (Namicorn_resolve N domain)
           \<or> failsInTaxonomy (Namicorn_addressOrThrow N domain currencyTicker)))
   \<and> (Namicorn_addressOrThrow N domain currencyTicker = Inl e \<and> \<not> isResolutionError e
      \<longrightarrow> Namicorn_address N domain currencyTicker = Inl e)
   \<and> (Namicorn_resolve N ''unclaimed.zil'' = Inr (Some UNCLAIMED_DOMAIN_RESPONSE)
      \<longrightarrow> Namicorn_address N ''unclaimed.zil'' ''ETH'' = Inr None
        \<and> Namicorn_addressOrThrow N ''unclaimed.zil'' ''ETH'' =
            Inl (ResolutionError ''UnregisteredDomain'' [(''domain'', ''unclaimed.zil'')]))"
proof (intro conjI impI)
  assume b: "blockchain N"
  show "(Namicorn_address N domain currencyTicker = Inr None)
        = (failsInTaxonomy (Namicorn_resolve N domain)
           \<or> failsInTaxonomy (Namicorn_addressOrThrow N domain currencyTicker))"
  proof (cases "Namicorn_addressOrThrow N domain currencyTicker")
    case (Inl e)
    then have "\<not> failsInTaxonomy (Namicorn_resolve N domain)"
      using addressOrThrow_null [OF b, of domain currencyTicker] by simp
    with Inl show ?thesis
      by (simp add: Namicorn_address_def failsInTaxonomy_def)
  next
    case (Inr a)
    then show ?thesis
      using addressOrThrow_null [OF b, of domain currencyTicker]
      by (simp add: Namicorn_address_def failsInTaxonomy_def)
  qed
next
  assume "Namicorn_addressOrThrow N domain currencyTicker = Inl e \<and> \<not> isResolutionError e"
  then show "Namicorn_address N domain currencyTicker = Inl e"
    by (simp add: Namicorn_address_def)
next
  assume u: "Namicorn_resolve N ''unclaimed.zil'' = Inr (Some UNCLAIMED_DOMAIN_RESPONSE)"
  then show t: "Namicorn_addressOrThrow N ''unclaimed.zil'' ''ETH'' =
            Inl (ResolutionError ''UnregisteredDomain'' [(''domain'', ''unclaimed.zil'')])"
    by (simp add: Namicorn_addressOrThrow_def UNCLAIMED_DOMAIN_RESPONSE_def falsy_def)
  then show "Namicorn_address N ''unclaimed.zil'' ''ETH'' = Inr None"
    by (simp add: Namicorn_address_def)
qed

theorem address_null_witness:
  "Namicorn_address (dispatcher (Some (CnsMethod cnsKnown)) (Some (ZnsMethod znsEmpty)))
      ''unclaimed.zil'' ''ETH'' = Inr None
   \<and> Namicorn_addressOrThrow (dispatcher (Some (CnsMethod cnsKnown)) (Some (ZnsMethod znsEmpty)))
      ''unclaimed.zil'' ''ETH'' =
        Inl (ResolutionError ''UnregisteredDomain'' [(''domain'', ''unclaimed.zil'')])
   \<and> failsInTaxonomy (Namicorn_addressOrThrow
        (dispatcher (Some (CnsMethod cnsKnown)) (Some (ZnsMethod znsEmpty))) ''unclaimed.zil'' ''ETH'')
   \<and> Namicorn_address (dispatcher (Some (CnsMethod cnsKnown)) (Some (ZnsMethod znsDown)))
      ''unclaimed.zil'' ''ETH'' = Inl (Error ''Invalid JSON RPC response: undefined'')"
proof -
  let ?N = "dispatcher (Some (CnsMethod cnsKnown)) (Some (ZnsMethod znsEmpty))"
  let ?D = "dispatcher (Some (CnsMethod cnsKnown)) (Some (ZnsMethod znsDown))"
  have r: "Namicorn_resolve ?N ''unclaimed.zil'' = Inr (Some UNCLAIMED_DOMAIN_RESPONSE)"
    by (simp add: dispatch_defs Cns_isSupportedDomain_def string_defs example_defs)
  have b: "blockchain ?N"
    by (simp add: dispatcher_def)
  have d: "Namicorn_addressOrThrow ?D ''unclaimed.zil'' ''ETH'' =
      Inl (Error ''Invalid JSON RPC response: undefined'')"
    by (simp add: Namicorn_addressOrThrow_def dispatch_defs Cns_isSupportedDomain_def
        string_defs example_defs)
  show ?thesis
    using address_null [where N = ?N and domain = "''unclaimed.zil''" and currencyTicker = "''ETH''"]
      address_null [where N = ?D and domain = "''unclaimed.zil''" and currencyTicker = "''ETH''"
        and e = "Error ''Invalid JSON RPC response: undefined''"]
      r b d
    by (auto simp add: failsInTaxonomy_def)
qed

lemma Cns_address_unspecified:
  "Cns_getResolutionMeta c domain = Inr (tokenId, owner', ttl', resolver) \<Longrightarrow>
   Cns_fetchAddress c resolver tokenId currencyTicker = Inr addr \<Longrightarrow>
   Cns_address c domain currencyTicker =
     (if falsy addr
      then Inl (ResolutionError ''UnspecifiedCurrency''
                 [(''domain'', domain), (''currencyTicker'', currencyTicker)])
      else Inr (the addr))"
  by (simp add: Cns_address_def)

lemma address_depends_on_upper:
  assumes "toUpperCase t = toUpperCase t'"
  shows "Namicorn_address N domain t = Namicorn_address N domain t'"
proof (cases "Namicorn_resolve N domain")
  case (Inl e)
  then show ?thesis
    by (simp add: Namicorn_address_def Namicorn_addressOrThrow_def)
next
  case (Inr res)
  show ?thesis
  proof (cases res)
    case None
    with Inr show ?thesis
      by (simp add: Namicorn_address_def Namicorn_addressOrThrow_def)
  next
    case (Some data)
    with Inr assms show ?thesis
      by (simp add: Namicorn_address_def Namicorn_addressOrThrow_def)
  qed
qed

text \<open>
  Claim C6, amended. In the CNS backend, \<^verbatim>\<open>address\<close> fails with
  UnspecifiedCurrency when the resolution meta succeeds and the record read for the
  ticker is empty. In the dispatcher, \<^verbatim>\<open>addressOrThrow\<close> fails with a
  ResolutionError of code \<^verbatim>\<open>UnregisteredCurrency\<close> when the resolution has an
  owner and no address under the ticker, and \<^verbatim>\<open>address\<close> returns null there.
  On both paths the ticker is put in upper case before the lookup: tickers with the same
  upper case read the same record and give the same \<^verbatim>\<open>address\<close>.
\<close>

theorem missing_currency:
  "(Cns_getResolutionMeta c domain = Inr (tokenId, owner', ttl', resolver)
      \<and> Cns_fetchAddress c resolver tokenId currencyTicker = Inr addr \<and> falsy addr
    \<longrightarrow> Cns_address c domain currencyTicker =
          Inl (ResolutionError ''UnspecifiedCurrency''
                [(''domain'', domain), (''currencyTicker'', currencyTicker)]))
   \<and> (Namicorn_resolve N domain = Inr (Some data) \<and> \<not> falsy (owner (meta data))
      \<and> falsy (property (addresses data) (toUpperCase currencyTicker))
    \<longrightarrow> Namicorn_addressOrThrow N domain currencyTicker =
          Inl (ResolutionError ''UnregisteredCurrency''
                [(''domain'', domain), (''currencyTicker'', currencyTicker)])
        \<and> Namicorn_address N domain currencyTicker = Inr None)
   \<and> (toUpperCase currencyTicker = toUpperCase ticker'
    \<longrightarrow> Cns_fetchAddress c resolver tokenId currencyTicker =
          Cns_fetchAddress c resolver tokenId ticker'
        \<and> Namicorn_address N domain currencyTicker = Namicorn_address N domain ticker')"
proof (intro conjI impI)
  assume "Cns_getResolutionMeta c domain = Inr (tokenId, owner', ttl', resolver)
      \<and> Cns_fetchAddress c resolver tokenId currencyTicker = Inr addr \<and> falsy addr"
  then show "Cns_address c domain currencyTicker =
          Inl (ResolutionError ''UnspecifiedCurrency''
                [(''domain'', domain), (''currencyTicker'', currencyTicker)])"
    by (simp add: Cns_address_unspecified)
next
  assume "Namicorn_resolve N domain = Inr (Some data) \<and> \<not> falsy (owner (meta data))
      \<and> falsy (property (addresses data) (toUpperCase currencyTicker))"
  then show t: "Namicorn_addressOrThrow N domain currencyTicker =
          Inl (ResolutionError ''UnregisteredCurrency''
                [(''domain'', domain), (''currencyTicker'', currencyTicker)])"
    by (simp add: Namicorn_addressOrThrow_def)
  then show "Namicorn_address N domain currencyTicker = Inr None"
    by (simp add: Namicorn_address_def)
next
  assume u: "toUpperCase currencyTicker = toUpperCase ticker'"
  then show "Cns_fetchAddress c resolver tokenId currencyTicker =
          Cns_fetchAddress c resolver tokenId ticker'"
    by (simp add: Cns_fetchAddress_def)
  from u show "Namicorn_address N domain currencyTicker = Namicorn_address N domain ticker'"
    by (rule address_depends_on_upper)
qed

theorem missing_currency_witness:
  "Cns_address cnsKnown ''known.crypto'' ''btc'' =
     Inl (ResolutionError ''UnspecifiedCurrency''
           [(''domain'', ''known.crypto''), (''currencyTicker'', ''btc'')])
   \<and> Cns_fetchAddress cnsKnown (Some ''0xb66DcE2DA6afAAa98F2013446dBCB0f4B0ab2842'')
        ''0xknown.crypto'' ''eth'' = Inr (Some ''0xabc'')"
  using missing_currency [where c = cnsKnown and domain = "''known.crypto''"
      and tokenId = "''0xknown.crypto''"
      and owner' = "Some ''0x8aaD44321A86b170879d7A244c1e8d360c99DdA8''" and ttl' = 120
      and resolver = "Some ''0xb66DcE2DA6afAAa98F2013446dBCB0f4B0ab2842''"
      and currencyTicker = "''btc''" and addr = "Some []"]
    missing_currency [where c = cnsKnown
      and tokenId = "''0xknown.crypto''"
      and resolver = "Some ''0xb66DcE2DA6afAAa98F2013446dBCB0f4B0ab2842''"
      and currencyTicker = "''eth''" and ticker' = "''ETH''"]
  by (simp add: cns_defs string_defs example_defs parseInt_def parseUnsigned_def digitOf_def
        whiteSpace_def)

text \<open>
  The claim as stated fails in the dispatcher: for the record set of the
  specification's example and the ticker BTC, \<^verbatim>\<open>addressOrThrow\<close> throws the code
  \<^verbatim>\<open>UnregisteredCurrency\<close>, not UnspecifiedCurrency, and \<^verbatim>\<open>address\<close>
  returns null.
\<close>

theorem unregistered_currency_counterexample:
  "Namicorn_resolve (dispatcher (Some (CnsMethod cnsKnown)) (Some (ZnsMethod znsEmpty)))
      ''known.crypto'' =
     Inr (Some \<lparr>addresses = [(''ETH'', Some ''0xabc'')],
                meta = \<lparr>owner = Some ''0x8aaD44321A86b170879d7A244c1e8d360c99DdA8'',
                        type = ''cns'', ttl = 120\<rparr>\<rparr>)
   \<and> Namicorn_addressOrThrow (dispatcher (Some (CnsMethod cnsKnown)) (Some (ZnsMethod znsEmpty)))
      ''known.crypto'' ''BTC'' =
     Inl (ResolutionError ''UnregisteredCurrency''
           [(''domain'', ''known.crypto''), (''currencyTicker'', ''BTC'')])
   \<and> \<not> failsWith (Namicorn_addressOrThrow
          (dispatcher (Some (CnsMethod cnsKnown)) (Some (ZnsMethod znsEmpty)))
          ''known.crypto'' ''BTC'') ''UnspecifiedCurrency''
   \<and> Namicorn_address (dispatcher (Some (CnsMethod cnsKnown)) (Some (ZnsMethod znsEmpty)))
      ''known.crypto'' ''BTC'' = Inr None"
proof -
  let ?N = "dispatcher (Some (CnsMethod cnsKnown)) (Some (ZnsMethod znsEmpty))"
  have m: "Cns_getResolutionMeta cnsKnown ''known.crypto'' =
      Inr (''0xknown.crypto'', Some ''0x8aaD44321A86b170879d7A244c1e8d360c99DdA8'', 120,
           Some ''0xb66DcE2DA6afAAa98F2013446dBCB0f4B0ab2842'')"
    by (simp add: cns_defs string_defs example_defs parseInt_def parseUnsigned_def digitOf_def
        whiteSpace_def)
  have s: "Cns_isSupportedDomain ''known.crypto''"
    by (simp add: Cns_isSupportedDomain_def string_defs)
  have f: "Cns_fetchAddress cnsKnown (Some ''0xb66DcE2DA6afAAa98F2013446dBCB0f4B0ab2842'')
      ''0xknown.crypto'' ''ETH'' = Inr (Some ''0xabc'')"
    by (simp add: Cns_fetchAddress_def Cns_getRecord_def Cns_callMethod_def string_defs
        example_defs)
  have r: "Namicorn_resolve ?N ''known.crypto'' =
     Inr (Some \<lparr>addresses = [(''ETH'', Some ''0xabc'')],
                meta = \<lparr>owner = Some ''0x8aaD44321A86b170879d7A244c1e8d360c99DdA8'',
                        type = ''cns'', ttl = 120\<rparr>\<rparr>)"
    using m s f
    by (simp add: Namicorn_resolve_def resolveUsingBlockchain_def getNamingMethod_def
        supports_def CnsMethod_def Cns_resolve_def Cns_ensureSupportedDomain_def dispatcher_def)
  have t: "Namicorn_addressOrThrow ?N ''known.crypto'' ''BTC'' =
     Inl (ResolutionError ''UnregisteredCurrency''
           [(''domain'', ''known.crypto''), (''currencyTicker'', ''BTC'')])"
    using r by (simp add: Namicorn_addressOrThrow_def property_def string_defs)
  show ?thesis
    using r t by (simp add: Namicorn_address_def failsWith_def)
qed

lemma indexOf_negative: "indexOf s c < 0 \<longleftrightarrow> c \<notin> set s"
  by (induction s) (auto simp add: Let_def)

lemma indexOf_positive: "0 < indexOf s c \<longleftrightarrow> s \<noteq> [] \<and> hd s \<noteq> c \<and> c \<in> set s"
proof (cases s)
  case Nil
  then show ?thesis by simp
next
  case (Cons x xs)
  then show ?thesis
    using indexOf_negative [of xs c] by (auto simp add: Let_def)
qed
lemma testTld_split:
  "testTld tld domain \<longleftrightarrow>
     (\<exists>p. domain = p @ CHR ''.'' # tld \<and> p \<noteq> [] \<and> (\<forall>ch\<in>set p. \<not> lineTerminator ch))"
proof
  assume t: "testTld tld domain"
  let ?n = "length domain - length (CHR ''.'' # tld)"
  from t have d: "drop ?n domain = CHR ''.'' # tld"
    and l: "length (CHR ''.'' # tld) < length domain"
    and a: "list_all (\<lambda>c. \<not> lineTerminator c) (take ?n domain)"
    by (simp_all add: testTld_def Let_def)
  have "domain = take ?n domain @ drop ?n domain"
    by simp
  with d have "domain = take ?n domain @ CHR ''.'' # tld"
    by simp
  moreover from l have "take ?n domain \<noteq> []"
    by auto
  moreover from a have "\<forall>ch\<in>set (take ?n domain). \<not> lineTerminator ch"
    by (simp add: list_all_iff)
  ultimately show "\<exists>p. domain = p @ CHR ''.'' # tld \<and> p \<noteq> [] \<and> (\<forall>ch\<in>set p. \<not> lineTerminator ch)"
    by blast
next
  assume "\<exists>p. domain = p @ CHR ''.'' # tld \<and> p \<noteq> [] \<and> (\<forall>ch\<in>set p. \<not> lineTerminator ch)"
  then obtain p where "domain = p @ CHR ''.'' # tld" "p \<noteq> []" "\<forall>ch\<in>set p. \<not> lineTerminator ch"
    by blast
  then show "testTld tld domain"
    by (simp add: testTld_def Let_def list_all_iff)
qed

lemma testTld_last: "testTld tld domain \<Longrightarrow> last domain = last (CHR ''.'' # tld)"
proof -
  assume "testTld tld domain"
  then obtain p where "domain = p @ CHR ''.'' # tld"
    using testTld_split by blast
  then show ?thesis by simp
qed

lemma patterns_exclusive: "\<not> (Cns_isSupportedDomain domain \<and> Zns_isSupportedDomain domain)"
proof
  assume "Cns_isSupportedDomain domain \<and> Zns_isSupportedDomain domain"
  then have c: "testTld ''crypto'' domain" and z: "testTld ''zil'' domain"
    by (simp_all add: Cns_isSupportedDomain_def Zns_isSupportedDomain_def)
  have "last domain = last (CHR ''.'' # ''crypto'')"
    using c by (rule testTld_last)
  moreover have "last domain = last (CHR ''.'' # ''zil'')"
    using z by (rule testTld_last)
  ultimately show False by simp
qed

lemma supported_split:
  "(0 < indexOf domain CHR ''.'' \<and> testTld tld domain) \<longleftrightarrow>
     (\<exists>p. domain = p @ CHR ''.'' # tld \<and> p \<noteq> [] \<and> hd p \<noteq> CHR ''.''
          \<and> (\<forall>ch\<in>set p. \<not> lineTerminator ch))"
proof
  assume a: "0 < indexOf domain CHR ''.'' \<and> testTld tld domain"
  then have "\<exists>p. domain = p @ CHR ''.'' # tld \<and> p \<noteq> [] \<and> (\<forall>ch\<in>set p. \<not> lineTerminator ch)"
    by (simp add: testTld_split)
  then obtain p where p: "domain = p @ CHR ''.'' # tld" "p \<noteq> []"
      "\<forall>ch\<in>set p. \<not> lineTerminator ch"
    by blast
  from a have "hd domain \<noteq> CHR ''.''"
    by (simp add: indexOf_positive)
  with p have "hd p \<noteq> CHR ''.''"
    by simp
  with p show "\<exists>p. domain = p @ CHR ''.'' # tld \<and> p \<noteq> [] \<and> hd p \<noteq> CHR ''.''
          \<and> (\<forall>ch\<in>set p. \<not> lineTerminator ch)"
    by blast
next
  assume "\<exists>p. domain = p @ CHR ''.'' # tld \<and> p \<noteq> [] \<and> hd p \<noteq> CHR ''.''
          \<and> (\<forall>ch\<in>set p. \<not> lineTerminator ch)"
  then obtain p where p: "domain = p @ CHR ''.'' # tld" "p \<noteq> []" "hd p \<noteq> CHR ''.''"
      "\<forall>ch\<in>set p. \<not> lineTerminator ch"
    by blast
  then have "\<exists>p. domain = p @ CHR ''.'' # tld \<and> p \<noteq> [] \<and> (\<forall>ch\<in>set p. \<not> lineTerminator ch)"
    by blast
  then have t: "testTld tld domain"
    by (simp add: testTld_split)
  from p have "domain \<noteq> []" and "hd domain \<noteq> CHR ''.''" and "CHR ''.'' \<in> set domain"
    by simp_all
  then have "0 < indexOf domain CHR ''.''"
    by (simp add: indexOf_positive)
  with t show "0 < indexOf domain CHR ''.'' \<and> testTld tld domain"
    by simp
qed

text \<open>
  Claim C8. For a dispatcher over the CNS and the ZNS backend, either of which may be
  missing, \<^verbatim>\<open>isSupportedDomain\<close> is true if and only if exactly one registered
  backend supports the domain. The check of a backend reads the domain only: it holds
  when the domain is a nonempty prefix without line terminator, not starting with a
  dot, followed by the dot and the suffix of the backend; the state of the backend and
  the contract caller play no part in it.
\<close>

theorem isSupportedDomain_exactly_one:
  "(Namicorn_isSupportedDomain
       (N\<lparr>ens := map_option CnsMethod c, zns := map_option ZnsMethod z\<rparr>) domain = Some True
      \<longleftrightarrow> length (matching (N\<lparr>ens := map_option CnsMethod c, zns := map_option ZnsMethod z\<rparr>)
                    domain) = 1)
   \<and> (isSupportedDomain (CnsMethod c') domain
      \<longleftrightarrow> (\<exists>p. domain = p @ ''.crypto'' \<and> p \<noteq> [] \<and> hd p \<noteq> CHR ''.''
              \<and> (\<forall>ch\<in>set p. \<not> lineTerminator ch)))
   \<and> (isSupportedDomain (ZnsMethod z') domain
      \<longleftrightarrow> (\<exists>p. domain = p @ ''.zil'' \<and> p \<noteq> [] \<and> hd p \<noteq> CHR ''.''
              \<and> (\<forall>ch\<in>set p. \<not> lineTerminator ch)))"
proof (intro conjI)
  show "Namicorn_isSupportedDomain
       (N\<lparr>ens := map_option CnsMethod c, zns := map_option ZnsMethod z\<rparr>) domain = Some True
      \<longleftrightarrow> length (matching (N\<lparr>ens := map_option CnsMethod c, zns := map_option ZnsMethod z\<rparr>)
                    domain) = 1"
    using patterns_exclusive [of domain]
    by (cases c; cases z)
      (auto simp add: Namicorn_isSupportedDomain_def matching_def registered_def
        List.map_filter_def CnsMethod_def ZnsMethod_def)
next
  show "isSupportedDomain (CnsMethod c') domain
      \<longleftrightarrow> (\<exists>p. domain = p @ ''.crypto'' \<and> p \<noteq> [] \<and> hd p \<noteq> CHR ''.''
              \<and> (\<forall>ch\<in>set p. \<not> lineTerminator ch))"
    using supported_split [of domain "''crypto''"]
    by (simp add: CnsMethod_def Cns_isSupportedDomain_def)
next
  show "isSupportedDomain (ZnsMethod z') domain
      \<longleftrightarrow> (\<exists>p. domain = p @ ''.zil'' \<and> p \<noteq> [] \<and> hd p \<noteq> CHR ''.''
              \<and> (\<forall>ch\<in>set p. \<not> lineTerminator ch))"
    using supported_split [of domain "''zil''"]
    by (simp add: ZnsMethod_def Zns_isSupportedDomain_def)
qed

theorem isSupportedDomain_exactly_one_witness:
  "Namicorn_isSupportedDomain (dispatcher (Some (CnsMethod cnsKnown)) (Some (ZnsMethod znsEmpty)))
      ''brad.zil'' = Some True
   \<and> length (matching (dispatcher (Some (CnsMethod cnsKnown)) (Some (ZnsMethod znsEmpty)))
      ''brad.zil'') = 1
   \<and> Namicorn_isSupportedDomain (dispatcher (Some (CnsMethod cnsKnown)) (Some (ZnsMethod znsEmpty)))
      ''brad.eth'' = Some False
   \<and> isSupportedDomain (CnsMethod cnsKnown) ''brad.crypto''"
proof -
  have d: "dispatcher (Some (CnsMethod cnsKnown)) (Some (ZnsMethod znsEmpty))
      = (dispatcher None None)\<lparr>ens := map_option CnsMethod (Some cnsKnown),
                                zns := map_option ZnsMethod (Some znsEmpty)\<rparr>"
    by (simp add: dispatcher_def)
  have s: "Namicorn_isSupportedDomain
      (dispatcher (Some (CnsMethod cnsKnown)) (Some (ZnsMethod znsEmpty))) ''brad.zil'' = Some True"
    by (simp add: Namicorn_isSupportedDomain_def dispatcher_def ZnsMethod_def
        Zns_isSupportedDomain_def string_defs)
  have e: "Namicorn_isSupportedDomain
      (dispatcher (Some (CnsMethod cnsKnown)) (Some (ZnsMethod znsEmpty))) ''brad.eth'' = Some False"
    by (simp add: Namicorn_isSupportedDomain_def dispatcher_def ZnsMethod_def CnsMethod_def
        Zns_isSupportedDomain_def Cns_isSupportedDomain_def string_defs)
  have p: "''brad.crypto'' = ''brad'' @ ''.crypto'' \<and> ''brad'' \<noteq> [] \<and> hd ''brad'' \<noteq> CHR ''.''
      \<and> (\<forall>ch\<in>set ''brad''. \<not> lineTerminator ch)"
    by (simp add: lineTerminator_def)
  show ?thesis
    using isSupportedDomain_exactly_one [where N = "dispatcher None None" and c = "Some cnsKnown"
        and z = "Some znsEmpty" and domain = "''brad.zil''"]
      isSupportedDomain_exactly_one [where c' = cnsKnown and domain = "''brad.crypto''"]
      d s e p
    by metis
qed

lemma toLowerCase_empty: "toLowerCase d = [] \<longleftrightarrow> d = []"
  by (simp add: toLowerCase_def)

lemma namehashSpec_lower:
  assumes "toLowerCase d1 = toLowerCase d2"
  shows "namehashSpec keccak d1 = namehashSpec keccak d2"
proof -
  from assms have "d1 = [] \<longleftrightarrow> d2 = []"
    using toLowerCase_empty by metis
  with assms show ?thesis
    by (simp add: namehashSpec_def)
qed

text \<open>
  Claim C9. With the hash function of the specification, the CNS \<^verbatim>\<open>namehash\<close> of
  two supported domains that differ in letter case only is the same node hash and no
  failure, as for \<^verbatim>\<open>Brad.crypto\<close> and \<^verbatim>\<open>brad.crypto\<close>; on a domain that
  is not supported it fails with UnsupportedDomain.
\<close>

theorem namehash_case_insensitive:
  "(Cns_isSupportedDomain d1 \<and> Cns_isSupportedDomain d2 \<and> toLowerCase d1 = toLowerCase d2
    \<longrightarrow> Cns_namehash (c\<lparr>hash := namehashSpec keccak\<rparr>) d1
          = Cns_namehash (c\<lparr>hash := namehashSpec keccak\<rparr>) d2
        \<and> \<not> failsInTaxonomy (Cns_namehash (c\<lparr>hash := namehashSpec keccak\<rparr>) d1))
   \<and> Cns_namehash (c\<lparr>hash := namehashSpec keccak\<rparr>) ''Brad.crypto''
       = Cns_namehash (c\<lparr>hash := namehashSpec keccak\<rparr>) ''brad.crypto''
   \<and> (\<not> Cns_isSupportedDomain d1
    \<longrightarrow> Cns_namehash (c\<lparr>hash := namehashSpec keccak\<rparr>) d1
          = Inl (ResolutionError ''UnsupportedDomain'' [(''domain'', d1)]))"
proof (intro conjI impI)
  assume a: "Cns_isSupportedDomain d1 \<and> Cns_isSupportedDomain d2 \<and> toLowerCase d1 = toLowerCase d2"
  then show "Cns_namehash (c\<lparr>hash := namehashSpec keccak\<rparr>) d1
          = Cns_namehash (c\<lparr>hash := namehashSpec keccak\<rparr>) d2"
    using namehashSpec_lower [of d1 d2 keccak] by (simp add: Cns_namehash_supported)
  from a show "\<not> failsInTaxonomy (Cns_namehash (c\<lparr>hash := namehashSpec keccak\<rparr>) d1)"
    by (simp add: Cns_namehash_supported namehashSpec_def failsInTaxonomy_def)
next
  have "toLowerCase ''Brad.crypto'' = toLowerCase ''brad.crypto''"
    by (simp add: toLowerCase_def toLowerChar_def)
  moreover have "Cns_isSupportedDomain ''Brad.crypto''" and "Cns_isSupportedDomain ''brad.crypto''"
    by (simp_all add: Cns_isSupportedDomain_def string_defs)
  ultimately show "Cns_namehash (c\<lparr>hash := namehashSpec keccak\<rparr>) ''Brad.crypto''
       = Cns_namehash (c\<lparr>hash := namehashSpec keccak\<rparr>) ''brad.crypto''"
    using namehashSpec_lower [of "''Brad.crypto''" "''brad.crypto''" keccak]
    by (simp add: Cns_namehash_supported)
next
  assume "\<not> Cns_isSupportedDomain d1"
  then show "Cns_namehash (c\<lparr>hash := namehashSpec keccak\<rparr>) d1
          = Inl (ResolutionError ''UnsupportedDomain'' [(''domain'', d1)])"
    by (simp add: Cns_namehash_def Cns_ensureSupportedDomain_def)
qed

theorem namehash_case_insensitive_witness:
  "Cns_namehash (cnsKnown\<lparr>hash := namehashSpec (take 8)\<rparr>) ''Some.Crypto.crypto''
     = Cns_namehash (cnsKnown\<lparr>hash := namehashSpec (take 8)\<rparr>) ''soMe.cRYPTO.crypto''
   \<and> Cns_namehash (cnsKnown\<lparr>hash := namehashSpec (take 8)\<rparr>) ''brad.CRYPTO''
     = Inl (ResolutionError ''UnsupportedDomain'' [(''domain'', ''brad.CRYPTO'')])"
  using namehash_case_insensitive [where ?d1.0 = "''Some.Crypto.crypto''"
      and ?d2.0 = "''soMe.cRYPTO.crypto''" and c = cnsKnown and keccak = "take 8"]
    namehash_case_insensitive [where ?d1.0 = "''brad.CRYPTO''" and c = cnsKnown
      and keccak = "take 8"]
  by (simp add: Cns_isSupportedDomain_def string_defs)

end
